theory Spec2Isabelle
  imports Main "HOL-Library.Sublist"
begin

section \<open>Strings and paths (Python \<open>str\<close>, \<open>pathlib\<close> on a POSIX host)\<close>

text \<open>
  Python strings are modelled as \<open>string\<close>, read as the UTF-8 bytes of the text. The two
  markers the program searches for are ASCII, so a substring test on the bytes agrees with
  the test on the code points. \<open>x in s\<close> on strings is \<^const>\<open>sublist\<close>.
\<close>

definition backslash :: char where
  "backslash = CHR 0x5C"

definition forward_marker :: string where
  "forward_marker = ''/CommonTypes/v14/''"

definition backward_marker :: string where
  "backward_marker = backslash # ''CommonTypes'' @ backslash # ''v14'' @ [backslash]"

text \<open>\<open>"/CommonTypes/v14/" in loc or "\\CommonTypes\\v14\\" in loc\<close>\<close>

definition has_marker :: "string \<Rightarrow> bool" where
  "has_marker loc = (sublist forward_marker loc \<or> sublist backward_marker loc)"

text \<open>\<open>sep.join(xs)\<close> and \<open>s.split(sep)\<close> for a one-character separator.\<close>

fun join :: "string \<Rightarrow> string list \<Rightarrow> string" where
  "join sep [] = []"
| "join sep [x] = x"
| "join sep (x # y # ys) = x @ sep @ join sep (y # ys)"

fun cons_head :: "char \<Rightarrow> string list \<Rightarrow> string list" where
  "cons_head c [] = [[c]]"
| "cons_head c (w # ws) = (c # w) # ws"

fun split_on :: "char \<Rightarrow> string \<Rightarrow> string list" where
  "split_on sep [] = [[]]"
| "split_on sep (c # cs) =
     (if c = sep then [] # split_on sep cs else cons_head c (split_on sep cs))"

text \<open>
  \<open>pathlib.Path\<close> on a POSIX host is \<open>PurePosixPath\<close> plus file-system queries. A pure path
  is its root (\<open>""\<close>, \<open>"/"\<close> or \<open>"//"\<close>) and the list of its components; there is no drive.
  \<open>splitroot\<close> is \<open>posixpath.splitroot\<close>; parsing drops empty and \<open>"."\<close> components and
  keeps \<open>".."\<close>. Only \<open>/\<close> separates components: a backslash is an ordinary character.
\<close>

datatype posix_path = PosixPath (root: string) (tail: "string list")

definition splitroot :: "string \<Rightarrow> string \<times> string" where
  "splitroot p =
     (if take 1 p \<noteq> ''/'' then ([], p)
      else if take 1 (drop 1 p) \<noteq> ''/'' \<or> take 1 (drop 2 p) = ''/'' then (''/'', drop 1 p)
      else (take 2 p, drop 2 p))"

definition parse_path :: "string \<Rightarrow> posix_path" where
  "parse_path path =
     (if path = [] then PosixPath [] []
      else case splitroot path of
        (rt, rel) \<Rightarrow> PosixPath rt (filter (\<lambda>x. x \<noteq> [] \<and> x \<noteq> ''.'') (split_on CHR ''/'' rel)))"

text \<open>\<open>str(p)\<close>\<close>

definition str_path :: "posix_path \<Rightarrow> string" where
  "str_path p =
     (if root p \<noteq> [] then root p @ join ''/'' (tail p)
      else if tail p = [] then ''.''
      else join ''/'' (tail p))"

text \<open>\<open>p.name\<close>\<close>

definition path_name :: "posix_path \<Rightarrow> string" where
  "path_name p = (if tail p = [] then [] else last (tail p))"

text \<open>\<open>p / s\<close> for a string \<open>s\<close>: an absolute right operand replaces the left one.\<close>

definition joinpath :: "posix_path \<Rightarrow> string \<Rightarrow> posix_path" where
  "joinpath p s =
     (let q = parse_path s
      in if root q \<noteq> [] then q else PosixPath (root p) (tail p @ tail q))"

text \<open>
  \<open>p.as_uri()\<close> on a POSIX path is \<open>"file://" + quote_from_bytes(os.fsencode(str(p)))\<close>,
  with \<open>/\<close> and the unreserved characters kept and every other byte written \<open>%XX\<close>.
  It raises \<open>ValueError\<close> on a relative path; its only caller passes the result of
  \<open>resolve()\<close>, which is absolute, so that branch is not part of the model.
\<close>

definition always_safe :: "char \<Rightarrow> bool" where
  "always_safe c =
     (c \<in> set ''ABCDEFGHIJKLMNOPQRSTUVWXYZabcdefghijklmnopqrstuvwxyz0123456789_.-~'')"

definition hex_digit :: "nat \<Rightarrow> char" where
  "hex_digit n = ''0123456789ABCDEF'' ! n"

definition quote_byte :: "char \<Rightarrow> string" where
  "quote_byte c =
     (if always_safe c \<or> c = CHR ''/'' then [c]
      else [CHR ''%'', hex_digit (of_char c div 16), hex_digit (of_char c mod 16)])"

definition quote_from_bytes :: "string \<Rightarrow> string" where
  "quote_from_bytes s = concat (map quote_byte s)"

definition as_uri :: "posix_path \<Rightarrow> string" where
  "as_uri p = ''file://'' @ quote_from_bytes (str_path p)"

section \<open>XML trees (lxml)\<close>

text \<open>
  An lxml element has a tag in Clark notation (\<open>{namespace}local\<close>), attributes in document
  order with unique keys, a text, a tail and its children; comments and processing
  instructions are children too, and never match a tag. A node of the mutable tree is
  addressed by its path: the child indices from the root.
\<close>

type_synonym attrib = "(string \<times> string) list"

datatype node =
    Element string attrib string string "node list"
  | Comment string string
  | ProcessingInstruction string string string

datatype element_tree = ElementTree (docinfo: string) (getroot: node)

type_synonym path = "nat list"

fun children :: "node \<Rightarrow> node list" where
  "children (Element tg a tx ta cs) = cs"
| "children _ = []"

fun attrib_of :: "node \<Rightarrow> attrib" where
  "attrib_of (Element tg a tx ta cs) = a"
| "attrib_of _ = []"

fun has_tag :: "string \<Rightarrow> node \<Rightarrow> bool" where
  "has_tag t (Element tg a tx ta cs) = (tg = t)"
| "has_tag t _ = False"


text \<open>\<open>node.get(key)\<close> and \<open>node.set(key, value)\<close>: an existing key keeps its position.\<close>

fun node_get :: "node \<Rightarrow> string \<Rightarrow> string option" where
  "node_get (Element tg a tx ta cs) k = map_of a k"
| "node_get _ k = None"

fun set_item :: "attrib \<Rightarrow> string \<Rightarrow> string \<Rightarrow> attrib" where
  "set_item [] k v = [(k, v)]"
| "set_item ((k', v') # kvs) k v =
     (if k' = k then (k, v) # kvs else (k', v') # set_item kvs k v)"

fun node_set :: "node \<Rightarrow> string \<Rightarrow> string \<Rightarrow> node" where
  "node_set (Element tg a tx ta cs) k v = Element tg (set_item a k v) tx ta cs"
| "node_set n k v = n"

fun get_at :: "node \<Rightarrow> path \<Rightarrow> node option" where
  "get_at n [] = Some n"
| "get_at n (i # p) =
     (if i < length (children n) then get_at (children n ! i) p else None)"

text \<open>The mutation of the node at a path.\<close>

fun update_at :: "path \<Rightarrow> (node \<Rightarrow> node) \<Rightarrow> node \<Rightarrow> node" where
  "update_at [] f n = f n"
| "update_at (i # p) f (Element tg a tx ta cs) =
     Element tg a tx ta (if i < length cs then cs[i := update_at p f (cs ! i)] else cs)"
| "update_at (i # p) f n = n"

text \<open>
  \<open>elem.iterdescendants(tag)\<close>: the proper descendants with that tag, in document order.
  \<open>root.findall(".//xs:import", namespaces=NS)\<close> is \<open>iterdescendants\<close> of the root for the
  tag \<open>{http://www.w3.org/2001/XMLSchema}import\<close>; the root itself is not selected.
\<close>

fun iterdescendants :: "string \<Rightarrow> node \<Rightarrow> path list"
  and iterdescendants_from :: "string \<Rightarrow> nat \<Rightarrow> node list \<Rightarrow> path list" where
  "iterdescendants t (Element tg a tx ta cs) = iterdescendants_from t 0 cs"
| "iterdescendants t (Comment c ta) = []"
| "iterdescendants t (ProcessingInstruction tgt c ta) = []"
| "iterdescendants_from t i [] = []"
| "iterdescendants_from t i (c # cs) =
     (if has_tag t c then [[i]] else []) @ map ((#) i) (iterdescendants t c)
       @ iterdescendants_from t (Suc i) cs"

definition XS_NS :: string where
  "XS_NS = ''http://www.w3.org/2001/XMLSchema''"

definition xs_tag :: "string \<Rightarrow> string" where
  "xs_tag local = ''{'' @ XS_NS @ ''}'' @ local"

definition findall :: "node \<Rightarrow> string \<Rightarrow> path list" where
  "findall rt local = iterdescendants (xs_tag local) rt"

definition reference_tags :: "string list" where
  "reference_tags = [''import'', ''include'', ''redefine'']"

section \<open>The host: file system and XML engine\<close>

text \<open>
  What the program asks of its environment is a parameter of the model.
  \<^item> \<open>resolve\<close> is \<open>Path.resolve()\<close> (not strict): it depends on the working directory and on
    the symbolic links of the file system. Its result is absolute, with root \<open>/\<close>; the host
    gives the components.
  \<^item> \<open>is_dir\<close>, \<open>is_file\<close> are the probes of \<open>pathlib\<close>.
  \<^item> \<open>et_parse\<close> is \<open>ET.parse(filename, parser)\<close>: a tree, or \<open>XMLSyntaxError\<close>, or \<open>OSError\<close>,
    each with the text of the exception.
  \<^item> \<open>et_tostring\<close> is \<open>ET.tostring(tree, xml_declaration, encoding)\<close>; \<open>et_fromstring\<close> is
    \<open>ET.fromstring(bytes, parser)\<close>: the root element, or \<open>XMLSyntaxError\<close>.
  \<^item> \<open>et_XMLSchema\<close> is the constructor \<open>ET.XMLSchema(element)\<close>: a schema, or
    \<open>XMLSchemaParseError\<close> with its error log. A schema object is what it answers:
    \<open>schema.validate(doc)\<close> and the \<open>schema.error_log\<close> left by that call.
\<close>

record log_entry =
  line :: int
  column :: int
  message :: string

record parser_config =
  load_dtd :: bool
  no_network :: bool
  resolve_entities :: bool
  huge_tree :: bool

datatype parse_result =
    Parsed element_tree
  | Raise_XMLSyntaxError string
  | Raise_OSError string

type_synonym xmlschema = "element_tree \<Rightarrow> bool \<times> log_entry list"

record host =
  resolve :: "posix_path \<Rightarrow> string list"
  is_dir :: "posix_path \<Rightarrow> bool"
  is_file :: "posix_path \<Rightarrow> bool"
  et_parse :: "string \<Rightarrow> parser_config \<Rightarrow> parse_result"
  et_tostring :: "element_tree \<Rightarrow> bool \<Rightarrow> string \<Rightarrow> string"
  et_fromstring :: "string \<Rightarrow> parser_config \<Rightarrow> string + node"
  et_XMLSchema :: "node \<Rightarrow> log_entry list + xmlschema"

definition resolve_path :: "host \<Rightarrow> posix_path \<Rightarrow> posix_path" where
  "resolve_path h p = PosixPath ''/'' (resolve h p)"

text \<open>
  On a file system without symbolic links \<open>resolve()\<close> is lexical: a relative path is put
  under the working directory, and each \<open>".."\<close> drops the component before it (none at the
  root).
\<close>

definition collapse :: "string list \<Rightarrow> string list" where
  "collapse cs = foldl (\<lambda>acc c. if c = ''..'' then butlast acc else acc @ [c]) [] cs"

definition lexical_resolve :: "string list \<Rightarrow> posix_path \<Rightarrow> string list" where
  "lexical_resolve cwd p = collapse (if root p = [] then cwd @ tail p else tail p)"


section \<open>The program\<close>

text \<open>
  Python exceptions that leave a function of the program: \<open>RuntimeError\<close> with its message,
  and the \<open>XMLSyntaxError\<close> that \<open>compile_schema\<close> does not catch.
\<close>

datatype exn = RuntimeError string | XMLSyntaxError string

subsection \<open>\<open>rewrite_schema_imports_in_memory\<close>\<close>

text \<open>
  The body of the first loop, for one node: \<open>continue\<close> on an absent or empty
  \<open>schemaLocation\<close>, otherwise the file name and the local URI are computed, and the
  attribute is set when the location holds a marker.
\<close>

definition rewrite_reference :: "host \<Rightarrow> posix_path \<Rightarrow> node \<Rightarrow> node" where
  "rewrite_reference h schema_dir nd =
     (case node_get nd ''schemaLocation'' of
        None \<Rightarrow> nd
      | Some loc \<Rightarrow>
          if loc = [] then nd
          else let file_name = path_name (parse_path loc);
                   local_uri = as_uri (resolve_path h (joinpath schema_dir file_name))
               in if has_marker loc then node_set nd ''schemaLocation'' local_uri else nd)"

text \<open>
  The first pair of loops. \<open>findall\<close> returns a list, computed on the tree as it is when
  the inner loop starts; each node of the list is then mutated in place.
\<close>

definition rewrite_pass :: "host \<Rightarrow> posix_path \<Rightarrow> node \<Rightarrow> node" where
  "rewrite_pass h schema_dir rt =
     fold (\<lambda>tg r. fold (\<lambda>p. update_at p (rewrite_reference h schema_dir)) (findall r tg) r)
       reference_tags rt"

text \<open>\<open>node.get("schemaLocation") or ""\<close>\<close>

definition location_or_empty :: "node \<Rightarrow> string" where
  "location_or_empty nd =
     (case node_get nd ''schemaLocation'' of None \<Rightarrow> [] | Some loc \<Rightarrow> loc)"

text \<open>The second pair of loops: does it reach its \<open>raise\<close>?\<close>

definition marker_remains :: "node \<Rightarrow> bool" where
  "marker_remains rt =
     list_ex (\<lambda>tg. list_ex (\<lambda>p. case get_at rt p of
                                  None \<Rightarrow> False
                                | Some nd \<Rightarrow> has_marker (location_or_empty nd))
                      (findall rt tg))
       reference_tags"

definition still_present :: exn where
  "still_present = RuntimeError ''[Error] '/CommonTypes/v14/' still present after rewrite.''"

text \<open>
  The function mutates the tree it is given. The result is that tree after the call,
  with the exception raised, or \<open>None\<close> when the function returns (the same tree).
\<close>

definition rewrite_schema_imports_in_memory ::
    "host \<Rightarrow> element_tree \<Rightarrow> posix_path \<Rightarrow> element_tree \<times> exn option" where
  "rewrite_schema_imports_in_memory h xsd_tree schema_dir =
     (let rt = rewrite_pass h schema_dir (getroot xsd_tree);
          mutated = ElementTree (docinfo xsd_tree) rt
      in (mutated, if marker_remains rt then Some still_present else None))"

subsection \<open>Effects of the pipeline\<close>

text \<open>
  What a run does to the outside, in the order it does it: the objects it asks the XML
  engine to build, the calls into the engine, and the lines it prints. A function of the
  pipeline returns its value, or the exception that leaves it, with the events it caused.
\<close>

datatype event =
    XMLParser_new parser_config
  | Call_parse string parser_config
  | Call_tostring element_tree bool string
  | Call_fromstring string parser_config
  | Call_XMLSchema node
  | Call_validate element_tree
  | Print_stdout string
  | Print_stderr string

type_synonym 'a raises = "(exn + 'a) \<times> event list"

subsection \<open>\<open>make_secure_parser\<close>\<close>

definition secure_config :: parser_config where
  "secure_config =
     \<lparr>load_dtd = False, no_network = True, resolve_entities = False, huge_tree = False\<rparr>"

definition make_secure_parser :: "parser_config \<times> event list" where
  "make_secure_parser = (secure_config, [XMLParser_new secure_config])"

subsection \<open>\<open>load_xml\<close>\<close>

text \<open>The two messages: \<open>f"[Error] {kind} is not well-formed XML: {e}"\<close> and
  \<open>f"[Error] Cannot read {kind} at {path}: {e}"\<close>.\<close>

definition malformed_message :: "string \<Rightarrow> string \<Rightarrow> string" where
  "malformed_message kind e = ''[Error] '' @ kind @ '' is not well-formed XML: '' @ e"

definition unreadable_message :: "string \<Rightarrow> posix_path \<Rightarrow> string \<Rightarrow> string" where
  "unreadable_message kind path e =
     ''[Error] Cannot read '' @ kind @ '' at '' @ str_path path @ '': '' @ e"

definition load_xml :: "host \<Rightarrow> posix_path \<Rightarrow> string \<Rightarrow> element_tree raises" where
  "load_xml h path kind =
     (case make_secure_parser of
        (parser, made) \<Rightarrow>
          (case et_parse h (str_path path) parser of
             Parsed t \<Rightarrow> Inr t
           | Raise_XMLSyntaxError e \<Rightarrow> Inl (RuntimeError (malformed_message kind e))
           | Raise_OSError e \<Rightarrow> Inl (RuntimeError (unreadable_message kind path e)),
           made @ [Call_parse (str_path path) parser]))"

subsection \<open>\<open>compile_schema\<close>\<close>

text \<open>\<open>str(n)\<close> for an integer, and \<open>f"{s:>2}"\<close>.\<close>

definition digit_char :: "nat \<Rightarrow> char" where
  "digit_char d = ''0123456789'' ! d"

function str_nat :: "nat \<Rightarrow> string" where
  "str_nat n = (if n < 10 then [digit_char n] else str_nat (n div 10) @ [digit_char (n mod 10)])"
  by pat_completeness auto
termination
  by (relation "measure id") auto

definition str_int :: "int \<Rightarrow> string" where
  "str_int i = (if i < 0 then CHR ''-'' # str_nat (nat (- i)) else str_nat (nat i))"

definition rjust :: "nat \<Rightarrow> string \<Rightarrow> string" where
  "rjust w s = replicate (w - length s) CHR '' '' @ s"

definition newline :: string where
  "newline = [CHR 0x0A]"

text \<open>One line of the message of a failed compilation, for \<open>enumerate(e.error_log, 1)\<close>.\<close>

definition compile_issue :: "nat \<times> log_entry \<Rightarrow> string" where
  "compile_issue ie =
     (case ie of (i, entry) \<Rightarrow>
        ''  '' @ str_nat i @ ''. Line '' @ str_int (line entry) @ '', Col ''
          @ str_int (column entry) @ '': '' @ message entry)"

definition compile_failure_message :: "log_entry list \<Rightarrow> string" where
  "compile_failure_message error_log =
     join newline
       ((''[Error] Schema compilation failed ('' @ str_nat (length error_log) @ '' issue(s)):'')
        # map compile_issue (enumerate 1 error_log))"

definition compile_schema :: "host \<Rightarrow> element_tree \<Rightarrow> xmlschema raises" where
  "compile_schema h xsd_tree =
     (case make_secure_parser of
        (parser, made) \<Rightarrow>
          let xsd_bytes = et_tostring h xsd_tree True ''utf-8'';
              serialised = made @ [Call_tostring xsd_tree True ''utf-8'']
          in (case et_fromstring h xsd_bytes parser of
                Inl e \<Rightarrow> (Inl (XMLSyntaxError e), serialised @ [Call_fromstring xsd_bytes parser])
              | Inr xsd_doc \<Rightarrow>
                  (case et_XMLSchema h xsd_doc of
                     Inr schema \<Rightarrow> Inr schema
                   | Inl error_log \<Rightarrow> Inl (RuntimeError (compile_failure_message error_log)),
                   serialised @ [Call_fromstring xsd_bytes parser, Call_XMLSchema xsd_doc])))"

subsection \<open>\<open>validate\<close>\<close>

record args =
  schema_dir :: string
  submission :: string

definition forbidden_parts :: "string list" where
  "forbidden_parts = [forward_marker, backward_marker]"

definition contains_forbidden :: "posix_path \<Rightarrow> bool" where
  "contains_forbidden p = list_ex (\<lambda>f. sublist f (str_path p)) forbidden_parts"

text \<open>
  \<open>except RuntimeError as e: print(f"[ERROR] {e}", file=sys.stderr); return 2\<close>, after
  the events \<open>evs\<close>. Another exception is not caught and leaves \<open>validate\<close>.
\<close>

fun except_RuntimeError :: "exn \<Rightarrow> event list \<Rightarrow> int raises" where
  "except_RuntimeError (RuntimeError msg) evs = (Inr 2, evs @ [Print_stderr (''[ERROR] '' @ msg)])"
| "except_RuntimeError e evs = (Inl e, evs)"

text \<open>One line of the report of a failed validation, for \<open>enumerate(schema.error_log, 1)\<close>.\<close>

definition validation_issue :: "nat \<times> log_entry \<Rightarrow> string" where
  "validation_issue ie =
     (case ie of (i, entry) \<Rightarrow>
        ''  '' @ rjust 2 (str_nat i) @ ''. Line '' @ str_int (line entry) @ '', Col ''
          @ str_int (column entry) @ '': '' @ message entry)"

definition validate :: "host \<Rightarrow> args \<Rightarrow> int raises" where
  "validate h a =
     (let schema_dir = parse_path (schema_dir a);
          submission = parse_path (submission a);
          fsa_xsd = joinpath schema_dir ''FSA029-Schema.xsd'';
          ct_xsd = joinpath schema_dir ''CommonTypes-Schema.xsd''
      in if list_ex contains_forbidden [schema_dir, submission]
         then (Inr 2, [Print_stderr ''[ERROR] File locations must not contain '/CommonTypes/v14/'.''])
         else if \<not> is_dir h schema_dir
         then (Inr 2, [Print_stderr (''[ERROR] Not a directory: '' @ str_path schema_dir)])
         else if \<not> is_file h fsa_xsd
         then (Inr 2, [Print_stderr (''[ERROR] Missing: '' @ str_path fsa_xsd)])
         else if \<not> is_file h ct_xsd
         then (Inr 2, [Print_stderr (''[ERROR] Missing: '' @ str_path ct_xsd)])
         else if \<not> is_file h submission
         then (Inr 2, [Print_stderr (''[ERROR] Missing: '' @ str_path submission)])
         else
           (case load_xml h fsa_xsd ''Main XSD'' of
              (Inl e, ev1) \<Rightarrow> except_RuntimeError e ev1
            | (Inr xsd_tree, ev1) \<Rightarrow>
           (case load_xml h ct_xsd ''CommonTypes XSD'' of
              (Inl e, ev2) \<Rightarrow> except_RuntimeError e (ev1 @ ev2)
            | (Inr _, ev2) \<Rightarrow>
           (case load_xml h submission ''Submission'' of
              (Inl e, ev3) \<Rightarrow> except_RuntimeError e (ev1 @ ev2 @ ev3)
            | (Inr xml_doc, ev3) \<Rightarrow>
           (let loaded = ev1 @ ev2 @ ev3 @ [Print_stdout ''[OK] Loaded XSDs & submission securely.'']
            in case rewrite_schema_imports_in_memory h xsd_tree schema_dir of
              (_, Some e) \<Rightarrow> except_RuntimeError e loaded
            | (rewritten, None) \<Rightarrow>
           (case compile_schema h rewritten of
              (Inl e, ev4) \<Rightarrow> except_RuntimeError e (loaded @ ev4)
            | (Inr schema, ev4) \<Rightarrow>
           (case schema xml_doc of
              (ok, error_log) \<Rightarrow>
                if ok
                then (Inr 0, loaded @ ev4 @
                        [Call_validate xml_doc,
                         Print_stdout ''[OK] Submission conforms to the FSA029 schema.''])
                else (Inr 1, loaded @ ev4 @
                        [Call_validate xml_doc, Print_stdout ''[Error] Issues:'']
                        @ map (Print_stdout \<circ> validation_issue) (enumerate 1 error_log)))))))))"

section \<open>Auxiliary notions for the proofs\<close>


fun map_descendants :: "(node \<Rightarrow> node) \<Rightarrow> node \<Rightarrow> node" where
  "map_descendants g (Element tg a tx ta cs) =
     Element tg a tx ta (map (\<lambda>c. g (map_descendants g c)) cs)"
| "map_descendants g n = n"







text \<open>An event that builds or uses a parser does so with the hardened configuration.\<close>

fun secure_event :: "event \<Rightarrow> bool" where
  "secure_event (XMLParser_new c) = (c = secure_config)"
| "secure_event (Call_parse s c) = (c = secure_config)"
| "secure_event (Call_fromstring s c) = (c = secure_config)"
| "secure_event ev = True"

fun is_parse_event :: "event \<Rightarrow> bool" where
  "is_parse_event (Call_parse s c) = True"
| "is_parse_event (Call_fromstring s c) = True"
| "is_parse_event ev = False"

fun is_validate_event :: "event \<Rightarrow> bool" where
  "is_validate_event (Call_validate doc) = True"
| "is_validate_event ev = False"

text \<open>The events of one load, and of the three loads of a run with the line printed after them.\<close>

definition load_events :: "posix_path \<Rightarrow> event list" where
  "load_events p = [XMLParser_new secure_config, Call_parse (str_path p) secure_config]"

definition loaded_events :: "args \<Rightarrow> event list" where
  "loaded_events a =
     load_events (joinpath (parse_path (schema_dir a)) ''FSA029-Schema.xsd'')
     @ load_events (joinpath (parse_path (schema_dir a)) ''CommonTypes-Schema.xsd'')
     @ load_events (parse_path (submission a))
     @ [Print_stdout ''[OK] Loaded XSDs & submission securely.'']"




section \<open>The specification's reading of compilation and of a run\<close>

text \<open>
  Modelled on the words of the specification, to be compared with \<open>compile_schema\<close> and
  \<open>validate\<close>. Compilation: serialise the tree to bytes, with an XML declaration, in UTF-8;
  re-parse those bytes under the configuration to obtain an independent tree; compile that
  tree into a schema object.
\<close>

definition spec_reparse :: "host \<Rightarrow> parser_config \<Rightarrow> element_tree \<Rightarrow> string + node" where
  "spec_reparse h config t = et_fromstring h (et_tostring h t True ''utf-8'') config"

definition spec_compile ::
    "host \<Rightarrow> parser_config \<Rightarrow> element_tree \<Rightarrow> (log_entry list + xmlschema) option" where
  "spec_compile h config t =
     (case spec_reparse h config t of
        Inl e \<Rightarrow> None
      | Inr independent \<Rightarrow> Some (et_XMLSchema h independent))"




section \<open>Concrete inputs\<close>

text \<open>
  A host without symbolic links, with working directory \<open>/home\<close>, one directory \<open>dir\<close> and
  the well-formed files \<open>files\<close>. Its engine knows one serialisation, of the empty schema,
  and its schema constructor answers \<open>compiled\<close>.
\<close>

definition empty_schema :: node where
  "empty_schema = Element (xs_tag ''schema'') [] [] [] []"

definition demo_host ::
    "string \<Rightarrow> (string \<times> element_tree) list \<Rightarrow> log_entry list + xmlschema \<Rightarrow> host" where
  "demo_host dir files compiled =
     \<lparr>resolve = lexical_resolve [''home''],
      is_dir = (\<lambda>p. str_path p = dir),
      is_file = (\<lambda>p. map_of files (str_path p) \<noteq> None),
      et_parse = (\<lambda>s cfg. case map_of files s of
                             Some t \<Rightarrow> Parsed t
                           | None \<Rightarrow> Raise_OSError ''Error reading file''),
      et_tostring = (\<lambda>t decl enc. ''<xs:schema/>''),
      et_fromstring = (\<lambda>s cfg. if s = ''<xs:schema/>'' then Inr empty_schema
                                else Inl ''Document is empty''),
      et_XMLSchema = (\<lambda>doc. compiled)\<rparr>"

definition accept_all :: xmlschema where
  "accept_all doc = (True, [])"

definition plain_host :: host where
  "plain_host = demo_host ''/srv/schemas'' [] (Inr accept_all)"

text \<open>
  A schema with a reference into the regulator's distribution (as the FSA029 schema has),
  a local reference, and a reference without location below another element.
\<close>

definition sample_schema :: element_tree where
  "sample_schema =
     ElementTree ''<?xml version='1.0'?>''
       (Element (xs_tag ''schema'') [(''elementFormDefault'', ''qualified'')] [] []
          [Element (xs_tag ''import'')
             [(''namespace'', ''urn:common''),
              (''schemaLocation'', ''../../CommonTypes/v14/CommonTypes-Schema.xsd'')] [] [] [],
           Comment ''local parts'' [],
           Element (xs_tag ''include'') [(''schemaLocation'', ''Local-Types.xsd'')] [] [] [],
           Element (xs_tag ''element'') [(''name'', ''FSA029'')] [] []
             [Element (xs_tag ''redefine'') [(''id'', ''r1'')] [] [] []]])"




text \<open>A trusted directory with the two schema files, and a submission.\<close>

definition sample_submission :: element_tree where
  "sample_submission = ElementTree [] (Element ''{urn:fsa029}FSA029-HSFeed'' [] [] [] [])"

definition sample_files :: "(string \<times> element_tree) list" where
  "sample_files =
     [(''/srv/schemas/FSA029-Schema.xsd'', sample_schema),
      (''/srv/schemas/CommonTypes-Schema.xsd'', ElementTree [] empty_schema),
      (''/data/submission.xml'', sample_submission)]"

definition sample_args :: args where
  "sample_args = \<lparr>schema_dir = ''/srv/schemas'', submission = ''/data/submission.xml''\<rparr>"

definition sample_host :: "log_entry list + xmlschema \<Rightarrow> host" where
  "sample_host compiled = demo_host ''/srv/schemas'' sample_files compiled"

definition two_issues :: "log_entry list" where
  "two_issues =
     [\<lparr>line = 12, column = 0, message = ''Element 'Capital': This element is not expected.''\<rparr>,
      \<lparr>line = 40, column = 7, message = ''Element 'Total': 'x' is not a valid value.''\<rparr>]"


text \<open>
  The same files in a directory \<open>/CommonTypes/v14\<close>, named on the command line with a
  trailing slash; the main schema there has no reference.
\<close>

definition marker_dir_files :: "(string \<times> element_tree) list" where
  "marker_dir_files =
     [(''/CommonTypes/v14/FSA029-Schema.xsd'', ElementTree [] empty_schema),
      (''/CommonTypes/v14/CommonTypes-Schema.xsd'', ElementTree [] empty_schema),
      (''/data/submission.xml'', sample_submission)]"

definition marker_dir_args :: args where
  "marker_dir_args = \<lparr>schema_dir = ''/CommonTypes/v14/'', submission = ''/data/submission.xml''\<rparr>"

definition marker_dir_host :: host where
  "marker_dir_host = demo_host ''/CommonTypes/v14'' marker_dir_files (Inr accept_all)"

text \<open>
  A host where \<open>/srv/schemas/CommonTypes-Schema.xsd\<close> is a symbolic link into a mirror of
  the distribution.
\<close>

definition symlink_host :: host where
  "symlink_host =
     plain_host\<lparr>resolve :=
       (\<lambda>p. if p = PosixPath ''/'' [''srv'', ''schemas'', ''CommonTypes-Schema.xsd'']
            then [''mirror'', ''CommonTypes'', ''v14'', ''CommonTypes-Schema.xsd'']
            else lexical_resolve [''home''] p)\<rparr>"

text \<open>A host whose engine fails to parse what it serialised.\<close>

definition unparsable_host :: host where
  "unparsable_host =
     (sample_host (Inr accept_all))\<lparr>et_fromstring := (\<lambda>s cfg. Inl ''Document is empty'')\<rparr>"

section \<open>The loops as a traversal\<close>







lemma has_tag_map_descendants [simp]: "has_tag t (map_descendants g n) = has_tag t n"
  by (cases n) auto
















section \<open>What the two passes do\<close>














lemma attrib_of_node_set:
  "attrib_of (node_set nd k v) = (case nd of Element _ a _ _ _ \<Rightarrow> set_item a k v | _ \<Rightarrow> [])"
  by (cases nd) auto



section \<open>File names and file URIs\<close>

lemma split_on_nonempty [simp]: "split_on sep s \<noteq> []"
  by (induction s) (auto, metis cons_head.elims list.distinct(1))















lemma posix_path_eta: "PosixPath (root d) (tail d) = d"
  by simp



lemma quote_slash: "quote_from_bytes ''/'' = ''/''"
  by (simp add: quote_from_bytes_def quote_byte_def)











section \<open>The locations after the first pass\<close>









section \<open>The steps of the pipeline\<close>

lemma snd_load_xml [simp]:
  "snd (load_xml h p k) = [XMLParser_new secure_config, Call_parse (str_path p) secure_config]"
  by (simp add: load_xml_def make_secure_parser_def)

lemma load_xml_pair: "load_xml h p k = (r, ev) \<longleftrightarrow>
    r = fst (load_xml h p k) \<and> ev = [XMLParser_new secure_config, Call_parse (str_path p) secure_config]"
  using snd_load_xml[of h p k] by (cases "load_xml h p k") auto

lemma fst_load_xml:
  "fst (load_xml h p k) =
     (case et_parse h (str_path p) secure_config of
        Parsed t \<Rightarrow> Inr t
      | Raise_XMLSyntaxError e \<Rightarrow> Inl (RuntimeError (malformed_message k e))
      | Raise_OSError e \<Rightarrow> Inl (RuntimeError (unreadable_message k p e)))"
  by (simp add: load_xml_def make_secure_parser_def)

lemma load_xml_raises_RuntimeError:
  "fst (load_xml h p k) = Inl e \<Longrightarrow> \<exists>msg. e = RuntimeError msg"
  by (auto simp: fst_load_xml split: parse_result.splits)

lemma compile_schema_events:
  "list_all secure_event (snd (compile_schema h t))"
  "\<not> list_ex is_validate_event (snd (compile_schema h t))"
  by (auto simp: compile_schema_def make_secure_parser_def Let_def split: sum.splits)

lemma except_RuntimeError_events:
  "snd (except_RuntimeError e evs) = evs @ (case e of RuntimeError m \<Rightarrow> [Print_stderr (''[ERROR] '' @ m)] | _ \<Rightarrow> [])"
  by (cases e) auto

lemma secure_print [simp]: "list_all secure_event (map (Print_stdout \<circ> f) xs)"
  by (induction xs) auto

lemma compile_schema_pair_events:
  assumes "compile_schema h t = (r, ev)"
  shows "list_all secure_event ev" "\<not> list_ex is_validate_event ev"
  using compile_schema_events[of h t] assms by simp_all

lemma validate_events_secure: "list_all secure_event (snd (validate h a))"
  unfolding validate_def Let_def
  by (auto simp: load_xml_pair except_RuntimeError_events
       split: prod.splits sum.splits option.splits exn.splits
       dest: compile_schema_pair_events(1))


lemma secure_event_iff:
  "secure_event ev \<longleftrightarrow>
     (\<forall>c. ev = XMLParser_new c \<or> (\<exists>s. ev = Call_parse s c) \<or> (\<exists>s. ev = Call_fromstring s c)
          \<longrightarrow> c = secure_config)"
  by (cases ev) auto


lemma compile_schema_reparsed:
  assumes "et_fromstring h (et_tostring h t True ''utf-8'') secure_config = Inr doc"
  shows "compile_schema h t =
          (case et_XMLSchema h doc of
             Inr schema \<Rightarrow> Inr schema
           | Inl error_log \<Rightarrow> Inl (RuntimeError (compile_failure_message error_log)),
           [XMLParser_new secure_config, Call_tostring t True ''utf-8'',
            Call_fromstring (et_tostring h t True ''utf-8'') secure_config, Call_XMLSchema doc])"
  using assms by (simp add: compile_schema_def make_secure_parser_def Let_def)

lemma compile_schema_not_reparsed:
  assumes "et_fromstring h (et_tostring h t True ''utf-8'') secure_config = Inl e"
  shows "compile_schema h t =
          (Inl (XMLSyntaxError e),
           [XMLParser_new secure_config, Call_tostring t True ''utf-8'',
            Call_fromstring (et_tostring h t True ''utf-8'') secure_config])"
  using assms by (simp add: compile_schema_def make_secure_parser_def Let_def)

lemma load_xml_eq: "load_xml h p k = (fst (load_xml h p k), load_events p)"
  by (simp add: load_xml_pair load_events_def)

lemma validate_cases [case_names forbidden not_dir missing_fsa missing_ct missing_sub
    unread_fsa unread_ct unread_sub incomplete not_compiled validated]:
  fixes h a
  defines "dir \<equiv> parse_path (schema_dir a)"
    and "sub \<equiv> parse_path (submission a)"
  defines "fsa \<equiv> joinpath dir ''FSA029-Schema.xsd''"
    and "ct \<equiv> joinpath dir ''CommonTypes-Schema.xsd''"
  obtains
    "contains_forbidden dir \<or> contains_forbidden sub"
    "validate h a =
       (Inr 2, [Print_stderr ''[ERROR] File locations must not contain '/CommonTypes/v14/'.''])"
  | "\<not> contains_forbidden dir" "\<not> contains_forbidden sub" "\<not> is_dir h dir"
    "validate h a = (Inr 2, [Print_stderr (''[ERROR] Not a directory: '' @ str_path dir)])"
  | "\<not> contains_forbidden dir" "\<not> contains_forbidden sub" "is_dir h dir" "\<not> is_file h fsa"
    "validate h a = (Inr 2, [Print_stderr (''[ERROR] Missing: '' @ str_path fsa)])"
  | "\<not> contains_forbidden dir" "\<not> contains_forbidden sub" "is_dir h dir" "is_file h fsa"
    "\<not> is_file h ct"
    "validate h a = (Inr 2, [Print_stderr (''[ERROR] Missing: '' @ str_path ct)])"
  | "\<not> contains_forbidden dir" "\<not> contains_forbidden sub" "is_dir h dir" "is_file h fsa"
    "is_file h ct" "\<not> is_file h sub"
    "validate h a = (Inr 2, [Print_stderr (''[ERROR] Missing: '' @ str_path sub)])"
  | msg where
    "\<not> contains_forbidden dir" "\<not> contains_forbidden sub" "is_dir h dir" "is_file h fsa"
    "is_file h ct" "is_file h sub"
    "fst (load_xml h fsa ''Main XSD'') = Inl (RuntimeError msg)"
    "validate h a = (Inr 2, load_events fsa @ [Print_stderr (''[ERROR] '' @ msg)])"
  | xsd msg where
    "\<not> contains_forbidden dir" "\<not> contains_forbidden sub" "is_dir h dir" "is_file h fsa"
    "is_file h ct" "is_file h sub"
    "fst (load_xml h fsa ''Main XSD'') = Inr xsd"
    "fst (load_xml h ct ''CommonTypes XSD'') = Inl (RuntimeError msg)"
    "validate h a =
       (Inr 2, load_events fsa @ load_events ct @ [Print_stderr (''[ERROR] '' @ msg)])"
  | xsd common msg where
    "\<not> contains_forbidden dir" "\<not> contains_forbidden sub" "is_dir h dir" "is_file h fsa"
    "is_file h ct" "is_file h sub"
    "fst (load_xml h fsa ''Main XSD'') = Inr xsd"
    "fst (load_xml h ct ''CommonTypes XSD'') = Inr common"
    "fst (load_xml h sub ''Submission'') = Inl (RuntimeError msg)"
    "validate h a =
       (Inr 2, load_events fsa @ load_events ct @ load_events sub
                 @ [Print_stderr (''[ERROR] '' @ msg)])"
  | xsd common doc mutated e where
    "\<not> contains_forbidden dir" "\<not> contains_forbidden sub" "is_dir h dir" "is_file h fsa"
    "is_file h ct" "is_file h sub"
    "fst (load_xml h fsa ''Main XSD'') = Inr xsd"
    "fst (load_xml h ct ''CommonTypes XSD'') = Inr common"
    "fst (load_xml h sub ''Submission'') = Inr doc"
    "rewrite_schema_imports_in_memory h xsd dir = (mutated, Some e)"
    "validate h a = except_RuntimeError e (loaded_events a)"
  | xsd common doc rewritten e ev4 where
    "\<not> contains_forbidden dir" "\<not> contains_forbidden sub" "is_dir h dir" "is_file h fsa"
    "is_file h ct" "is_file h sub"
    "fst (load_xml h fsa ''Main XSD'') = Inr xsd"
    "fst (load_xml h ct ''CommonTypes XSD'') = Inr common"
    "fst (load_xml h sub ''Submission'') = Inr doc"
    "rewrite_schema_imports_in_memory h xsd dir = (rewritten, None)"
    "compile_schema h rewritten = (Inl e, ev4)"
    "validate h a = except_RuntimeError e (loaded_events a @ ev4)"
  | xsd common doc rewritten schema ev4 where
    "\<not> contains_forbidden dir" "\<not> contains_forbidden sub" "is_dir h dir" "is_file h fsa"
    "is_file h ct" "is_file h sub"
    "fst (load_xml h fsa ''Main XSD'') = Inr xsd"
    "fst (load_xml h ct ''CommonTypes XSD'') = Inr common"
    "fst (load_xml h sub ''Submission'') = Inr doc"
    "rewrite_schema_imports_in_memory h xsd dir = (rewritten, None)"
    "compile_schema h rewritten = (Inr schema, ev4)"
    "validate h a =
       (if fst (schema doc)
        then (Inr 0, loaded_events a @ ev4 @
                [Call_validate doc,
                 Print_stdout ''[OK] Submission conforms to the FSA029 schema.''])
        else (Inr 1, loaded_events a @ ev4 @
                [Call_validate doc, Print_stdout ''[Error] Issues:'']
                @ map (Print_stdout \<circ> validation_issue) (enumerate 1 (snd (schema doc)))))"
proof -
  note defs = dir_def sub_def fsa_def ct_def
  note v = validate_def Let_def defs loaded_events_def
  consider (f) "contains_forbidden dir \<or> contains_forbidden sub"
    | (d) "\<not> contains_forbidden dir" "\<not> contains_forbidden sub" "\<not> is_dir h dir"
    | (m1) "\<not> contains_forbidden dir" "\<not> contains_forbidden sub" "is_dir h dir" "\<not> is_file h fsa"
    | (m2) "\<not> contains_forbidden dir" "\<not> contains_forbidden sub" "is_dir h dir" "is_file h fsa"
        "\<not> is_file h ct"
    | (m3) "\<not> contains_forbidden dir" "\<not> contains_forbidden sub" "is_dir h dir" "is_file h fsa"
        "is_file h ct" "\<not> is_file h sub"
    | (ok) "\<not> contains_forbidden dir" "\<not> contains_forbidden sub" "is_dir h dir" "is_file h fsa"
        "is_file h ct" "is_file h sub"
    by blast
  then show thesis
  proof cases
    case f then show thesis using that(1) by (auto simp: v)
  next
    case d then show thesis using that(2) by (simp add: v)
  next
    case m1 then show thesis using that(3) by (simp add: v)
  next
    case m2 then show thesis using that(4) by (simp add: v)
  next
    case m3 then show thesis using that(5) by (simp add: v)
  next
    case ok
    note pre = ok[unfolded defs]
    have l1: "load_xml h fsa ''Main XSD'' = (fst (load_xml h fsa ''Main XSD''), load_events fsa)"
      and l2: "load_xml h ct ''CommonTypes XSD'' = (fst (load_xml h ct ''CommonTypes XSD''), load_events ct)"
      and l3: "load_xml h sub ''Submission'' = (fst (load_xml h sub ''Submission''), load_events sub)"
      by (rule load_xml_eq)+
    show thesis
    proof (cases "fst (load_xml h fsa ''Main XSD'')")
      case (Inl e)
      then obtain msg where e: "e = RuntimeError msg" using load_xml_raises_RuntimeError by blast
      have "validate h a = (Inr 2, load_events fsa @ [Print_stderr (''[ERROR] '' @ msg)])"
        using pre l1[unfolded Inl e, unfolded defs] by (simp add: v)
      with ok Inl e show thesis using that(6) by blast
    next
      case x1: (Inr xsd)
      show thesis
      proof (cases "fst (load_xml h ct ''CommonTypes XSD'')")
        case (Inl e)
        then obtain msg where e: "e = RuntimeError msg" using load_xml_raises_RuntimeError by blast
        have "validate h a =
                (Inr 2, load_events fsa @ load_events ct @ [Print_stderr (''[ERROR] '' @ msg)])"
          using pre l1[unfolded x1, unfolded defs] l2[unfolded Inl e, unfolded defs] by (simp add: v)
        with ok x1 Inl e show thesis using that(7) by blast
      next
        case x2: (Inr common)
        show thesis
        proof (cases "fst (load_xml h sub ''Submission'')")
          case (Inl e)
          then obtain msg where e: "e = RuntimeError msg" using load_xml_raises_RuntimeError by blast
          have "validate h a =
                  (Inr 2, load_events fsa @ load_events ct @ load_events sub
                            @ [Print_stderr (''[ERROR] '' @ msg)])"
            using pre l1[unfolded x1, unfolded defs] l2[unfolded x2, unfolded defs] l3[unfolded Inl e, unfolded defs]
            by (simp add: v)
          with ok x1 x2 Inl e show thesis using that(8) by blast
        next
          case x3: (Inr doc)
          note ls = l1[unfolded x1, unfolded defs] l2[unfolded x2, unfolded defs] l3[unfolded x3, unfolded defs]
          obtain t' r where rw: "rewrite_schema_imports_in_memory h xsd dir = (t', r)"
            by (cases "rewrite_schema_imports_in_memory h xsd dir")
          show thesis
          proof (cases r)
            case (Some e)
            have "validate h a = except_RuntimeError e (loaded_events a)"
              using pre ls rw[unfolded Some, unfolded defs] by (simp add: v)
            with ok x1 x2 x3 rw Some show thesis using that(9) by blast
          next
            case None
            obtain c ev4 where cs: "compile_schema h t' = (c, ev4)"
              by (cases "compile_schema h t'")
            show thesis
            proof (cases c)
              case (Inl e)
              have "validate h a = except_RuntimeError e (loaded_events a @ ev4)"
                using pre ls rw[unfolded None, unfolded defs] cs[unfolded Inl] by (simp add: v)
              with ok x1 x2 x3 rw None cs Inl show thesis using that(10) by blast
            next
              case (Inr schema)
              have "validate h a =
                 (if fst (schema doc)
                  then (Inr 0, loaded_events a @ ev4 @
                          [Call_validate doc,
                           Print_stdout ''[OK] Submission conforms to the FSA029 schema.''])
                  else (Inr 1, loaded_events a @ ev4 @
                          [Call_validate doc, Print_stdout ''[Error] Issues:'']
                          @ map (Print_stdout \<circ> validation_issue)
                              (enumerate 1 (snd (schema doc)))))"
                using pre ls rw[unfolded None, unfolded defs] cs[unfolded Inr]
                by (simp add: v split: prod.splits)
              with ok x1 x2 x3 rw None cs Inr show thesis using that(11) by blast
            qed
          qed
        qed
      qed
    qed
  qed
qed

lemma compile_schema_cases [case_names not_reparsed rejected compiled]:
  obtains e where
    "et_fromstring h (et_tostring h t True ''utf-8'') secure_config = Inl e"
    "compile_schema h t =
       (Inl (XMLSyntaxError e),
        [XMLParser_new secure_config, Call_tostring t True ''utf-8'',
         Call_fromstring (et_tostring h t True ''utf-8'') secure_config])"
  | doc error_log where
    "et_fromstring h (et_tostring h t True ''utf-8'') secure_config = Inr doc"
    "et_XMLSchema h doc = Inl error_log"
    "compile_schema h t =
       (Inl (RuntimeError (compile_failure_message error_log)),
        [XMLParser_new secure_config, Call_tostring t True ''utf-8'',
         Call_fromstring (et_tostring h t True ''utf-8'') secure_config, Call_XMLSchema doc])"
  | doc schema where
    "et_fromstring h (et_tostring h t True ''utf-8'') secure_config = Inr doc"
    "et_XMLSchema h doc = Inr schema"
    "compile_schema h t =
       (Inr schema,
        [XMLParser_new secure_config, Call_tostring t True ''utf-8'',
         Call_fromstring (et_tostring h t True ''utf-8'') secure_config, Call_XMLSchema doc])"
proof (cases "et_fromstring h (et_tostring h t True ''utf-8'') secure_config")
  case (Inl e)
  then show thesis using that(1) compile_schema_not_reparsed by blast
next
  case (Inr doc)
  then show thesis
    using that(2,3) compile_schema_reparsed[OF Inr]
    by (cases "et_XMLSchema h doc") auto
qed

lemma compile_issue_lines:
  "length (map compile_issue (enumerate 1 error_log)) = length error_log"
  "i < length error_log \<Longrightarrow>
     map compile_issue (enumerate 1 error_log) ! i =
       ''  '' @ str_nat (i + 1) @ ''. Line '' @ str_int (line (error_log ! i)) @ '', Col ''
         @ str_int (column (error_log ! i)) @ '': '' @ message (error_log ! i)"
  by (simp_all add: compile_issue_def nth_enumerate_eq)


lemmas event_lists = loaded_events_def load_events_def

lemma validate_compile_failure:
  assumes ev: "Call_XMLSchema doc \<in> set (snd (validate h a))"
    and rej: "et_XMLSchema h doc = Inl error_log"
  shows "fst (validate h a) = Inr 2"
    and "last (snd (validate h a)) = Print_stderr (''[ERROR] '' @ compile_failure_message error_log)"
    and "\<not> list_ex is_validate_event (snd (validate h a))"
proof -
  have "fst (validate h a) = Inr 2
      \<and> last (snd (validate h a)) = Print_stderr (''[ERROR] '' @ compile_failure_message error_log)
      \<and> \<not> list_ex is_validate_event (snd (validate h a))"
  proof (cases h a rule: validate_cases)
    case (incomplete xsd common doc' mutated e)
    with ev show ?thesis by (cases e) (simp_all add: event_lists)
  next
    case (not_compiled xsd common doc' rewritten e ev4)
    show ?thesis
    proof (cases h rewritten rule: compile_schema_cases)
      case (not_reparsed e')
      with not_compiled ev show ?thesis by (auto simp: event_lists)
    next
      case (rejected d log)
      with not_compiled ev have "d = doc" by (auto simp: event_lists)
      with rejected rej have "log = error_log" by simp
      with rejected not_compiled show ?thesis by (auto simp: event_lists)
    next
      case (compiled d schema)
      with not_compiled show ?thesis by simp
    qed
  next
    case (validated xsd common doc' rewritten schema ev4)
    show ?thesis
    proof (cases h rewritten rule: compile_schema_cases)
      case (compiled d schema')
      with validated ev have "d = doc"
        by (auto simp: event_lists split: if_splits)
      with compiled rej show ?thesis by simp
    qed (use validated in simp_all)
  qed (use ev in \<open>simp_all add: event_lists\<close>)
  then show "fst (validate h a) = Inr 2"
    and "last (snd (validate h a)) = Print_stderr (''[ERROR] '' @ compile_failure_message error_log)"
    and "\<not> list_ex is_validate_event (snd (validate h a))"
    by simp_all
qed

section \<open>A run against its specification\<close>










lemma forbidden_path_rejected_before_loading:
  assumes "contains_forbidden (parse_path (schema_dir a))
           \<or> contains_forbidden (parse_path (submission a))"
  shows "validate h a =
           (Inr 2, [Print_stderr ''[ERROR] File locations must not contain '/CommonTypes/v14/'.''])"
  using assms by (auto simp: validate_def Let_def)

text \<open>
  Why the hosts of the theorems on the rewritten locations have no symbolic links: a link
  below the trusted directory can resolve into a path that holds the marker.
\<close>

lemma symbolic_link_into_distribution_raises:
  "\<not> has_marker (as_uri (resolve_path symlink_host (parse_path ''/srv/schemas'')) @ ''/'')
   \<and> snd (rewrite_schema_imports_in_memory symlink_host sample_schema
            (parse_path ''/srv/schemas'')) = Some still_present"
  by code_simp

text \<open>
  Why the theorem on the exit codes asks that the engine parses what it serialised:
  \<open>compile_schema\<close> catches \<open>XMLSchemaParseError\<close> only, and \<open>validate\<close> \<open>RuntimeError\<close> only.
\<close>

lemma uncaught_reparse_error_leaves_validate:
  "fst (validate unparsable_host sample_args) = Inl (XMLSyntaxError ''Document is empty'')"
  by code_simp

section \<open>The rewriter: error, frame\<close>





section \<open>The rewriter: completeness, reachability of the error\<close>







section \<open>The pipeline: parsers, loading, compilation\<close>

text \<open>
  C9. \<open>make_secure_parser\<close> builds, at every call, the configuration with DTD loading, network
  access, entity resolution and huge trees off. Every parser a load, a compilation or a
  whole run builds, and every parser given to \<open>ET.parse\<close> or \<open>ET.fromstring\<close>, is that one.
\<close>
theorem every_parser_is_hardened:
  "fst make_secure_parser =
     \<lparr>load_dtd = False, no_network = True, resolve_entities = False, huge_tree = False\<rparr>
   \<and> snd make_secure_parser = [XMLParser_new (fst make_secure_parser)]
   \<and> (\<forall>ev \<in> set (snd (load_xml h p kind)) \<union> set (snd (compile_schema h t))
               \<union> set (snd (validate h a)).
        \<forall>c. ev = XMLParser_new c \<or> (\<exists>s. ev = Call_parse s c) \<or> (\<exists>s. ev = Call_fromstring s c)
             \<longrightarrow> c = fst make_secure_parser)"
proof -
  have "list_all secure_event (snd (load_xml h p kind))" by simp
  moreover note compile_schema_events(1)[of h t] validate_events_secure[of h a]
  ultimately have "\<forall>ev \<in> set (snd (load_xml h p kind)) \<union> set (snd (compile_schema h t))
               \<union> set (snd (validate h a)). secure_event ev"
    unfolding list_all_iff by blast
  then show ?thesis
    unfolding secure_event_iff by (simp add: make_secure_parser_def secure_config_def)
qed

theorem every_parser_is_hardened_witness:
  "Call_fromstring ''<xs:schema/>''
     \<lparr>load_dtd = False, no_network = True, resolve_entities = False, huge_tree = False\<rparr>
     \<in> set (snd (validate (sample_host (Inr accept_all)) sample_args))
   \<and> Call_fromstring ''<xs:schema/>''
     \<lparr>load_dtd = True, no_network = False, resolve_entities = True, huge_tree = True\<rparr>
     \<notin> set (snd (validate (sample_host (Inr accept_all)) sample_args))"
proof -
  let ?bad = "\<lparr>load_dtd = True, no_network = False, resolve_entities = True, huge_tree = True\<rparr>"
  have a: "Call_fromstring ''<xs:schema/>''
     \<lparr>load_dtd = False, no_network = True, resolve_entities = False, huge_tree = False\<rparr>
     \<in> set (snd (validate (sample_host (Inr accept_all)) sample_args))"
    by code_simp
  have "?bad \<noteq> fst make_secure_parser"
    by (simp add: make_secure_parser_def secure_config_def)
  then have "Call_fromstring ''<xs:schema/>'' ?bad
     \<notin> set (snd (validate (sample_host (Inr accept_all)) sample_args))"
    using every_parser_is_hardened[where h = "sample_host (Inr accept_all)" and a = sample_args]
    by blast
  with a show ?thesis by simp
qed



text \<open>
  C8. \<open>compile_schema\<close> agrees with the specification's compilation under the hardened
  configuration: the schema is the one built from the tree obtained by serialising (XML
  declaration, UTF-8) and re-parsing, and the constructor is called on that re-parsed
  tree, after the serialisation and the re-parse in this order.
\<close>
theorem compile_schema_compiles_the_reparsed_tree:
  "(case spec_compile h (fst make_secure_parser) t of
      None \<Rightarrow> (\<exists>e. fst (compile_schema h t) = Inl (XMLSyntaxError e))
    | Some (Inr schema) \<Rightarrow> fst (compile_schema h t) = Inr schema
    | Some (Inl error_log) \<Rightarrow> (\<exists>msg. fst (compile_schema h t) = Inl (RuntimeError msg)))
   \<and> (\<forall>independent. spec_reparse h (fst make_secure_parser) t = Inr independent \<longrightarrow>
         snd (compile_schema h t) =
           [XMLParser_new (fst make_secure_parser), Call_tostring t True ''utf-8'',
            Call_fromstring (et_tostring h t True ''utf-8'') (fst make_secure_parser),
            Call_XMLSchema independent])"
proof (cases "et_fromstring h (et_tostring h t True ''utf-8'') secure_config")
  case (Inl e)
  then show ?thesis
    by (simp add: compile_schema_not_reparsed spec_compile_def spec_reparse_def
        make_secure_parser_def)
next
  case (Inr doc)
  then show ?thesis
    by (cases "et_XMLSchema h doc")
       (simp_all add: compile_schema_reparsed spec_compile_def spec_reparse_def
          make_secure_parser_def)
qed

theorem compile_schema_compiles_the_reparsed_tree_witness:
  "spec_reparse (sample_host (Inr accept_all)) (fst make_secure_parser) sample_schema
     = Inr empty_schema
   \<and> Call_XMLSchema empty_schema
       \<in> set (snd (compile_schema (sample_host (Inr accept_all)) sample_schema))
   \<and> Call_XMLSchema (getroot sample_schema)
       \<notin> set (snd (compile_schema (sample_host (Inr accept_all)) sample_schema))"
proof -
  have r: "spec_reparse (sample_host (Inr accept_all)) (fst make_secure_parser) sample_schema
     = Inr empty_schema"
    by code_simp
  have n: "getroot sample_schema \<noteq> empty_schema" by code_simp
  from compile_schema_compiles_the_reparsed_tree[of "sample_host (Inr accept_all)" sample_schema] r
  have "snd (compile_schema (sample_host (Inr accept_all)) sample_schema) =
           [XMLParser_new (fst make_secure_parser), Call_tostring sample_schema True ''utf-8'',
            Call_fromstring (et_tostring (sample_host (Inr accept_all)) sample_schema True ''utf-8'')
              (fst make_secure_parser),
            Call_XMLSchema empty_schema]"
    by blast
  with r n show ?thesis by simp
qed

text \<open>
  C6. When the schema constructor rejects the re-parsed tree, \<open>compile_schema\<close> raises a
  \<open>RuntimeError\<close> whose message has a header with the number of issues and one line for
  each entry of the error log, in order, with its line, column and message. In a run,
  that failure ends the run with 2, the message is the last thing printed, and
  \<open>schema.validate\<close> is not called.
\<close>
theorem compilation_failure_is_terminal:
  "(\<forall>doc error_log.
      spec_reparse h (fst make_secure_parser) t = Inr doc \<and> et_XMLSchema h doc = Inl error_log \<longrightarrow>
        fst (compile_schema h t) = Inl (RuntimeError (compile_failure_message error_log))
        \<and> compile_failure_message error_log =
            join newline
              ((''[Error] Schema compilation failed ('' @ str_nat (length error_log)
                  @ '' issue(s)):'') # map compile_issue (enumerate 1 error_log))
        \<and> length (map compile_issue (enumerate 1 error_log)) = length error_log
        \<and> (\<forall>i < length error_log.
              map compile_issue (enumerate 1 error_log) ! i =
                ''  '' @ str_nat (i + 1) @ ''. Line '' @ str_int (line (error_log ! i))
                  @ '', Col '' @ str_int (column (error_log ! i)) @ '': ''
                  @ message (error_log ! i)))
   \<and> (\<forall>doc error_log.
        Call_XMLSchema doc \<in> set (snd (validate h a)) \<and> et_XMLSchema h doc = Inl error_log \<longrightarrow>
          fst (validate h a) = Inr 2
          \<and> last (snd (validate h a))
              = Print_stderr (''[ERROR] '' @ compile_failure_message error_log)
          \<and> \<not> list_ex is_validate_event (snd (validate h a)))"
proof -
  have one: "fst (compile_schema h t) = Inl (RuntimeError (compile_failure_message error_log))"
    if "spec_reparse h (fst make_secure_parser) t = Inr doc \<and> et_XMLSchema h doc = Inl error_log"
    for doc error_log
  proof -
    from that have r: "et_fromstring h (et_tostring h t True ''utf-8'') secure_config = Inr doc"
      and x: "et_XMLSchema h doc = Inl error_log"
      by (simp_all add: spec_reparse_def make_secure_parser_def)
    show ?thesis using x by (simp add: compile_schema_reparsed[OF r])
  qed
  have two: "compile_failure_message error_log =
            join newline
              ((''[Error] Schema compilation failed ('' @ str_nat (length error_log)
                  @ '' issue(s)):'') # map compile_issue (enumerate 1 error_log))"
    for error_log
    by (simp add: compile_failure_message_def)
  have three: "fst (validate h a) = Inr 2
          \<and> last (snd (validate h a))
              = Print_stderr (''[ERROR] '' @ compile_failure_message error_log)
          \<and> \<not> list_ex is_validate_event (snd (validate h a))"
    if "Call_XMLSchema doc \<in> set (snd (validate h a)) \<and> et_XMLSchema h doc = Inl error_log"
    for doc error_log
    using that validate_compile_failure[of doc h a error_log] by simp
  show ?thesis
    using one two three compile_issue_lines by (intro conjI allI impI) blast+
qed

theorem compilation_failure_is_terminal_witness:
  "Call_XMLSchema empty_schema \<in> set (snd (validate (sample_host (Inl two_issues)) sample_args))
   \<and> et_XMLSchema (sample_host (Inl two_issues)) empty_schema = Inl two_issues
   \<and> fst (validate (sample_host (Inl two_issues)) sample_args) = Inr 2
   \<and> \<not> list_ex is_validate_event (snd (validate (sample_host (Inl two_issues)) sample_args))"
proof -
  have a: "Call_XMLSchema empty_schema
             \<in> set (snd (validate (sample_host (Inl two_issues)) sample_args))"
    by code_simp
  have b: "et_XMLSchema (sample_host (Inl two_issues)) empty_schema = Inl two_issues"
    by (simp add: sample_host_def demo_host_def)
  from compilation_failure_is_terminal[of "sample_host (Inl two_issues)" _ sample_args] a b
  show ?thesis by blast
qed

section \<open>The run: exit codes, forbidden paths\<close>



text \<open>
  C4. The check on the two paths reads \<open>str(Path(argument))\<close>, which has lost a trailing
  slash. A schema directory given as \<open>/CommonTypes/v14/\<close> holds the marker and passes the
  check; the run goes on, parses \<open>/CommonTypes/v14/FSA029-Schema.xsd\<close> and ends with 0.
  (When the string form of a path holds the marker, the run does end with 2 before any
  event: \<open>forbidden_path_rejected_before_loading\<close>.)
\<close>
theorem marker_directory_with_trailing_slash_is_loaded:
  "sublist forward_marker (schema_dir marker_dir_args)
   \<and> str_path (parse_path (schema_dir marker_dir_args)) = ''/CommonTypes/v14''
   \<and> \<not> contains_forbidden (parse_path (schema_dir marker_dir_args))
   \<and> fst (validate marker_dir_host marker_dir_args) = Inr 0
   \<and> Call_parse ''/CommonTypes/v14/FSA029-Schema.xsd'' secure_config
       \<in> set (snd (validate marker_dir_host marker_dir_args))"
  by code_simp

end
